theory Spec2Isabelle
  imports Main "HOL-Library.AList"
begin

section \<open>Values supplied to the component\<close>

text \<open>
  The screen selection of \<^verbatim>\<open>EmpiricaContext.tsx\<close> reads attribute values only through
  JavaScript truthiness (\<^verbatim>\<open>!player.get("ended")\<close>, \<^verbatim>\<open>Boolean(game.get("status"))\<close>).
  Attribute values are JSON values; numbers are kept as integers (no attribute read here
  is used arithmetically except the head count, see \<open>Treatment\<close>).
\<close>

datatype jsval =
    JUndefined
  | JNull
  | JBool bool
  | JNum int
  | JStr string
  | JObj "(string \<times> jsval) list"

fun truthy :: "jsval \<Rightarrow> bool" where
  "truthy JUndefined = False"
| "truthy JNull = False"
| "truthy (JBool b) = b"
| "truthy (JNum n) = (n \<noteq> 0)"
| "truthy (JStr s) = (s \<noteq> [])"
| "truthy (JObj kvs) = True"

text \<open>
  What a hook returns for an entity: \<^verbatim>\<open>undefined\<close> while it is still loading, \<^verbatim>\<open>null\<close>
  when it is known to be absent, or the entity. The source tells the first two apart once
  (\<^verbatim>\<open>game === undefined\<close>, line 93) and otherwise tests truthiness (\<^verbatim>\<open>!game\<close>).
\<close>

datatype 'a loadable = Undefined | Null | Loaded 'a

fun present :: "'a loadable \<Rightarrow> bool" where
  "present (Loaded x) = True"
| "present Undefined = False"
| "present Null = False"

text \<open>An opaque entity (a round, a stage, a player's placement), known by its id.\<close>

type_synonym entity = string

text \<open>
  \<^verbatim>\<open>game.get("treatment") as { playerCount: number }\<close> (line 235): the attribute under the
  type the source casts it to. \<open>playerCount = None\<close> is the key being \<^verbatim>\<open>undefined\<close>; the
  head count, where defined, is an integer.
\<close>

record Treatment =
  playerCount :: "int option"

text \<open>
  A game: \<^verbatim>\<open>game.get("status")\<close>, the getter \<^verbatim>\<open>game.hasEnded\<close> (class Game is not among
  the sources, so the getter's value is part of the snapshot), and
  \<^verbatim>\<open>game.get("treatment")\<close>, \<open>None\<close> when the attribute is \<^verbatim>\<open>undefined\<close> or \<^verbatim>\<open>null\<close>.
\<close>

record Game =
  status :: jsval
  hasEnded :: bool
  treatment :: "Treatment option"

text \<open>
  Modelled from the spec: the attribute store of the identity (class Player, imported from
  \<^verbatim>\<open>./hooks\<close>, is not among the sources). \<^verbatim>\<open>player.get(k)\<close> reads the attribute \<open>k\<close>,
  \<^verbatim>\<open>player.set(k, v)\<close> persists \<open>v\<close> under \<open>k\<close> and leaves every other attribute as it
  was. The attributes the component reads are \<open>ended\<close>, \<open>gameID\<close> and \<open>urlParams\<close>;
  \<open>game\<close>, \<open>round\<close> and \<open>stage\<close> are the getters \<^verbatim>\<open>player.game\<close>, \<^verbatim>\<open>player.round\<close>,
  \<^verbatim>\<open>player.stage\<close>, \<open>None\<close> while the player is not placed at that level.
\<close>

record Player =
  ended :: jsval
  gameID :: jsval
  urlParams :: jsval
  game :: "entity option"
  round :: "entity option"
  stage :: "entity option"

record Globals =
  experimentOpen :: jsval

text \<open>
  One snapshot of everything the hooks return during a render pass, and
  \<^verbatim>\<open>window.location.search\<close>. \<open>connecting\<close> and \<open>hasPlayer\<close> are the first two
  components of \<^verbatim>\<open>usePlayerID()\<close>, \<open>consented\<close> the first of \<^verbatim>\<open>useConsent()\<close>.
\<close>

record snapshot =
  useTajribaConnected :: bool
  usePartConnected :: bool
  useGlobal :: "Globals loadable"
  usePlayer :: "Player loadable"
  useGame :: "Game loadable"
  connecting :: bool
  hasPlayer :: bool
  consented :: bool
  usePlayers :: "Player list loadable"
  useStage :: "entity loadable"
  useRound :: "entity loadable"
  location_search :: string

text \<open>The boolean switches of \<^verbatim>\<open>EmpiricaContextProps\<close> (lines 38 to 55), all false by default.\<close>

record props =
  unmanagedGame :: bool
  unmanagedAssignment :: bool
  disableConsent :: bool
  disableNoGames :: bool
  disableURLParamsCapture :: bool

text \<open>
  The screens. \<open>Exit\<close> is the component of line 201 (the exit steps, then Finished),
  \<open>Children\<close> is \<^verbatim>\<open><>{children}</>\<close>, the contents.
\<close>

datatype screen =
    Connecting
  | Exit
  | Loading
  | NoGames
  | Consent
  | PlayerCreate
  | Children
  | Lobby

text \<open>
  What \<^verbatim>\<open>EmpiricaContext\<close> returns: a screen, or the intro steps wrapped around
  \<^verbatim>\<open>EmpiricaInnerContext\<close> (lines 138 to 150).
\<close>

datatype element = Render screen | IntroSteps

datatype error = TypeError

section \<open>The query string\<close>

text \<open>
  \<^verbatim>\<open>Object.fromEntries(new URLSearchParams(window.location.search).entries())\<close>
  (lines 122 and 123). \<^verbatim>\<open>URLSearchParams\<close> is the platform's parser of
  \<^verbatim>\<open>application/x-www-form-urlencoded\<close>: one leading \<^verbatim>\<open>?\<close> is dropped, the rest is split at
  \<^verbatim>\<open>&\<close>, empty pieces are skipped, a piece is split at its first \<^verbatim>\<open>=\<close>, \<^verbatim>\<open>+\<close> becomes a
  space and \<^verbatim>\<open>%XX\<close> is decoded. Strings are kept as their UTF-8 bytes.
  Two things the platform does are left out, neither of which the component reads: an
  escape that is not well-formed UTF-8 stays a raw byte here, where the platform puts
  U+FFFD; and the object of \<open>fromEntries\<close> keeps the order of the entries, where a
  JavaScript object lists integer-like keys first.
\<close>

fun split_on :: "char \<Rightarrow> string \<Rightarrow> string list" where
  "split_on c [] = [[]]"
| "split_on c (x # xs) =
     (if x = c then [] # split_on c xs
      else (case split_on c xs of
              [] \<Rightarrow> [[x]]
            | y # ys \<Rightarrow> (x # y) # ys))"

definition hex_digit :: "char \<Rightarrow> nat option" where
  "hex_digit c =
     (let n = of_char c :: nat in
      if 48 \<le> n \<and> n \<le> 57 then Some (n - 48)
      else if 65 \<le> n \<and> n \<le> 70 then Some (n - 55)
      else if 97 \<le> n \<and> n \<le> 102 then Some (n - 87)
      else None)"

fun percent_decode :: "string \<Rightarrow> string" where
  "percent_decode [] = []"
| "percent_decode [c] = [c]"
| "percent_decode [c, d] = [c, d]"
| "percent_decode (c # h # l # rest) =
     (if c = CHR ''%'' then
        (case (hex_digit h, hex_digit l) of
           (Some a, Some b) \<Rightarrow> char_of (16 * a + b) # percent_decode rest
         | _ \<Rightarrow> c # percent_decode (h # l # rest))
      else c # percent_decode (h # l # rest))"

definition plus_to_space :: "string \<Rightarrow> string" where
  "plus_to_space s = map (\<lambda>c. if c = CHR ''+'' then CHR '' '' else c) s"

definition form_decode :: "string \<Rightarrow> string" where
  "form_decode s = percent_decode (plus_to_space s)"

definition parse_pair :: "string \<Rightarrow> string \<times> string" where
  "parse_pair piece =
     (form_decode (takeWhile (\<lambda>c. c \<noteq> CHR ''='') piece),
      form_decode (drop 1 (dropWhile (\<lambda>c. c \<noteq> CHR ''='') piece)))"

definition URLSearchParams :: "string \<Rightarrow> (string \<times> string) list" where
  "URLSearchParams init =
     (let q = (case init of c # rest \<Rightarrow> if c = CHR ''?'' then rest else init | [] \<Rightarrow> [])
      in map parse_pair (filter (\<lambda>piece. piece \<noteq> []) (split_on CHR ''&'' q)))"

text \<open>\<^verbatim>\<open>Object.fromEntries\<close>: a later entry with the same key replaces the earlier value.\<close>

definition fromEntries :: "(string \<times> string) list \<Rightarrow> jsval" where
  "fromEntries entries =
     JObj (foldl (\<lambda>obj (k, v). AList.update k (JStr v) obj) [] entries)"

section \<open>The session gate: \<^verbatim>\<open>EmpiricaContext\<close>\<close>

text \<open>
  One render pass of \<^verbatim>\<open>EmpiricaContext\<close> yields the element it returns, the source line
  of the \<^verbatim>\<open>return\<close> statement that produced it, the identity as the pass leaves it, and
  the calls of \<^verbatim>\<open>player.set\<close> it made, in order.
\<close>

record rendering =
  shown :: element
  line :: nat
  player_after :: "Player loadable"
  sets :: "(string \<times> jsval) list"

definition returns ::
  "element \<Rightarrow> nat \<Rightarrow> Player loadable \<Rightarrow> (string \<times> jsval) list \<Rightarrow> rendering" where
  "returns e l pl w = \<lparr>shown = e, line = l, player_after = pl, sets = w\<rparr>"

text \<open>\<^verbatim>\<open>player?.get(k)\<close>: \<^verbatim>\<open>undefined\<close> when there is no player.\<close>

fun opt_get :: "(Player \<Rightarrow> jsval) \<Rightarrow> Player loadable \<Rightarrow> jsval" where
  "opt_get k (Loaded p) = k p"
| "opt_get k Undefined = JUndefined"
| "opt_get k Null = JUndefined"

text \<open>\<^verbatim>\<open>game && game.hasEnded\<close> (line 130).\<close>

fun game_hasEnded :: "Game loadable \<Rightarrow> bool" where
  "game_hasEnded (Loaded g) = hasEnded g"
| "game_hasEnded Undefined = False"
| "game_hasEnded Null = False"

text \<open>
  Lines 121 to 124: the capture of the query string onto the identity. The result is
  the identity afterwards and the \<^verbatim>\<open>player.set\<close> calls made.
\<close>

definition captureURLParams ::
  "bool \<Rightarrow> string \<Rightarrow> Player \<Rightarrow> Player \<times> (string \<times> jsval) list" where
  "captureURLParams disabled search p =
     (if \<not> disabled \<and> \<not> truthy (urlParams p) then
        (let v = fromEntries (URLSearchParams search)
         in (p\<lparr>urlParams := v\<rparr>, [(''urlParams'', v)]))
      else (p, []))"

definition EmpiricaContext :: "props \<Rightarrow> snapshot \<Rightarrow> rendering" where
  "EmpiricaContext pr s =
     (if \<not> useTajribaConnected s \<or> connecting s then
        returns (Render Connecting) 84 (usePlayer s) []
      else if truthy (opt_get ended (usePlayer s)) then
        returns (Render Exit) 88 (usePlayer s) []
      else if \<not> present (useGlobal s) \<or>
              (hasPlayer s \<and>
                (\<not> usePartConnected s \<or> \<not> present (usePlayer s) \<or> useGame s = Undefined)) then
        returns (Render Loading) 95 (usePlayer s) []
      else if \<not> disableNoGames pr \<and>
              \<not> (case useGlobal s of Loaded g \<Rightarrow> truthy (experimentOpen g) | _ \<Rightarrow> False) \<and>
              (\<not> hasPlayer s \<or> \<not> truthy (opt_get gameID (usePlayer s))) then
        returns (Render NoGames) 103 (usePlayer s) []
      else if \<not> disableConsent pr \<and> \<not> consented s then
        returns (Render Consent) 107 (usePlayer s) []
      else if \<not> hasPlayer s then
        returns (Render PlayerCreate) 112 (usePlayer s) []
      else
        (case usePlayer s of
           Loaded p \<Rightarrow>
             (if \<not> unmanagedGame pr \<and> \<not> present (useGame s) then
                returns (Render Loading) 117 (usePlayer s) []
              else
                (let (p', w) = captureURLParams (disableURLParamsCapture pr) (location_search s) p
                 in if unmanagedAssignment pr then
                      returns (Render Children) 127 (Loaded p') w
                    else if game_hasEnded (useGame s) then
                      (if \<not> truthy (ended p') then
                         returns (Render Loading) 132 (Loaded p') w
                       else returns (Render Exit) 135 (Loaded p') w)
                    else returns IntroSteps 139 (Loaded p') w))
         | _ \<Rightarrow> returns (Render Loading) 117 (usePlayer s) []))"

section \<open>The readiness check: \<^verbatim>\<open>useAllReady\<close>\<close>

text \<open>The loop of lines 243 to 247 over the player set.\<close>

fun players_placed :: "Player list \<Rightarrow> bool" where
  "players_placed [] = True"
| "players_placed (p # ps) =
     (if game p = None \<or> round p = None \<or> stage p = None then False
      else players_placed ps)"

text \<open>
  \<^verbatim>\<open>players.length < playerCount\<close> (line 239): with \<^verbatim>\<open>playerCount\<close> undefined the
  comparison is against NaN and is false.
\<close>

fun length_less :: "nat \<Rightarrow> int option \<Rightarrow> bool" where
  "length_less n None = False"
| "length_less n (Some c) = (int n < c)"

text \<open>
  The specification's words "player set size \<ge> playerCount", read as JavaScript
  evaluates \<^verbatim>\<open>players.length >= playerCount\<close>: against an undefined \<^verbatim>\<open>playerCount\<close>
  the comparison is false, like the one of line 239. This is the specification's
  condition, not a function of the source.
\<close>

fun length_at_least :: "nat \<Rightarrow> int option \<Rightarrow> bool" where
  "length_at_least n None = False"
| "length_at_least n (Some c) = (c \<le> int n)"

text \<open>
  \<^verbatim>\<open>treatment!["playerCount"]\<close> (line 237) reads a property of \<^verbatim>\<open>treatment\<close>; the
  \<^verbatim>\<open>!\<close> is erased at run time, so with the attribute absent the read throws a TypeError.
\<close>

definition useAllReady :: "snapshot \<Rightarrow> error + bool" where
  "useAllReady s =
     (case usePlayer s of
        Loaded p \<Rightarrow>
          (case usePlayers s of
             Loaded ps \<Rightarrow>
               (case useGame s of
                  Loaded g \<Rightarrow>
                    (if \<not> present (useStage s) \<or> \<not> present (useRound s) \<or>
                        game p = None \<or> round p = None \<or> stage p = None then Inr False
                     else
                       (case treatment g of
                          None \<Rightarrow> Inl TypeError
                        | Some t \<Rightarrow>
                            if length_less (length ps) (playerCount t) then Inr False
                            else Inr (players_placed ps)))
                | _ \<Rightarrow> Inr False)
           | _ \<Rightarrow> Inr False)
      | _ \<Rightarrow> Inr False)"

section \<open>The game gate: \<^verbatim>\<open>EmpiricaInnerContext\<close>\<close>

text \<open>
  \<^verbatim>\<open>useAllReady()\<close> is called at the top of the component (line 172), before any guard,
  so an error of the readiness check is an error of the gate whatever the game's state.
\<close>

definition EmpiricaInnerContext :: "bool \<Rightarrow> snapshot \<Rightarrow> error + screen" where
  "EmpiricaInnerContext unmanaged s =
     (case useAllReady s of
        Inl e \<Rightarrow> Inl e
      | Inr allReady \<Rightarrow>
          (case useGame s of
             Loaded g \<Rightarrow>
               (if \<not> truthy (status g) then Inr Lobby
                else if hasEnded g then
                  (if \<not> truthy (opt_get ended (usePlayer s)) then Inr Loading
                   else Inr Exit)
                else if unmanaged \<or> allReady then Inr Children
                else Inr Loading)
           | _ \<Rightarrow> if unmanaged then Inr Children else Inr Loading))"

section \<open>Both gates in one pass\<close>

text \<open>
  The screen of one evaluation: the session gate's, or, where it hands over, the game
  gate's on the same snapshot (with the identity as the session gate left it). The
  intro steps stand between the two; the step sequencer (\<^verbatim>\<open>./Steps\<close>) is not among the
  sources, and \<open>render\<close> is the pass in which it shows its contents.
\<close>

definition render :: "props \<Rightarrow> snapshot \<Rightarrow> error + screen" where
  "render pr s =
     (let r = EmpiricaContext pr s in
      case shown r of
        Render scr \<Rightarrow> Inr scr
      | IntroSteps \<Rightarrow>
          EmpiricaInnerContext (unmanagedGame pr) (s\<lparr>usePlayer := player_after r\<rparr>))"

section \<open>Example inputs\<close>

text \<open>
  A running two-player game seen by one of its players: everything loaded, the player
  placed, the location carrying the query string \<^verbatim>\<open>?a=1&b=2\<close>.
\<close>

definition default_props :: props where
  "default_props = \<lparr>unmanagedGame = False, unmanagedAssignment = False, disableConsent = False,
     disableNoGames = False, disableURLParamsCapture = False\<rparr>"

definition player0 :: Player where
  "player0 = \<lparr>ended = JUndefined, gameID = JStr ''g1'', urlParams = JUndefined,
     game = Some ''g1'', round = Some ''r1'', stage = Some ''s1''\<rparr>"

definition game0 :: Game where
  "game0 = \<lparr>status = JStr ''running'', hasEnded = False,
     treatment = Some \<lparr>playerCount = Some 2\<rparr>\<rparr>"

definition snapshot0 :: snapshot where
  "snapshot0 = \<lparr>useTajribaConnected = True, usePartConnected = True,
     useGlobal = Loaded \<lparr>experimentOpen = JBool True\<rparr>,
     usePlayer = Loaded player0, useGame = Loaded game0,
     connecting = False, hasPlayer = True, consented = True,
     usePlayers = Loaded [player0, player0],
     useStage = Loaded ''s1'', useRound = Loaded ''r1'',
     location_search = ''?a=1&b=2''\<rparr>"

text \<open>The same player once the \<open>ended\<close> attribute is set (to the reason, a non-empty string).\<close>

definition player_ended :: Player where
  "player_ended = player0\<lparr>ended := JStr ''finished''\<rparr>"

text \<open>The game once it has ended.\<close>

definition game_over :: Game where
  "game_over = game0\<lparr>status := JStr ''ended'', hasEnded := True\<rparr>"

text \<open>
  A connected player who is not assigned to any game: no \<open>gameID\<close>, no placement, and
  \<^verbatim>\<open>useGame()\<close> returning \<^verbatim>\<open>null\<close>.
\<close>

definition player_unassigned :: Player where
  "player_unassigned = \<lparr>ended = JUndefined, gameID = JUndefined, urlParams = JUndefined,
     game = None, round = None, stage = None\<rparr>"

definition snapshot_unassigned :: snapshot where
  "snapshot_unassigned = snapshot0\<lparr>usePlayer := Loaded player_unassigned, useGame := Null,
     usePlayers := Undefined, useStage := Undefined, useRound := Undefined\<rparr>"

text \<open>The same, with the experiment closed to new assignments.\<close>

definition snapshot_closed :: snapshot where
  "snapshot_closed = snapshot_unassigned\<lparr>useGlobal := Loaded \<lparr>experimentOpen = JBool False\<rparr>\<rparr>"

text \<open>
  The running game with a treatment that has no \<open>playerCount\<close>, and nobody in the
  player set yet.
\<close>

definition treatment_no_count :: Treatment where
  "treatment_no_count = \<lparr>playerCount = None\<rparr>"

definition snapshot_no_count :: snapshot where
  "snapshot_no_count = snapshot0\<lparr>useGame := Loaded (game0\<lparr>treatment := Some treatment_no_count\<rparr>),
     usePlayers := Loaded []\<rparr>"

lemmas example_defs = default_props_def player0_def game0_def snapshot0_def
  player_ended_def game_over_def player_unassigned_def snapshot_unassigned_def snapshot_closed_def

lemmas gate_defs = EmpiricaContext_def returns_def captureURLParams_def Let_def

section \<open>Basic facts\<close>

lemma players_placed_iff:
  "players_placed ps \<longleftrightarrow>
     (\<forall>q \<in> set ps. game q \<noteq> None \<and> round q \<noteq> None \<and> stage q \<noteq> None)"
  by (induction ps) auto

lemma capture_ended: "ended (fst (captureURLParams d q p)) = ended p"
  by (simp add: captureURLParams_def Let_def)

lemma capture_refs:
  "game (fst (captureURLParams d q p)) = game p"
  "round (fst (captureURLParams d q p)) = round p"
  "stage (fst (captureURLParams d q p)) = stage p"
  by (simp_all add: captureURLParams_def Let_def)

lemma present_iff: "present x \<longleftrightarrow> (\<exists>v. x = Loaded v)"
  by (cases x) simp_all

text \<open>The readiness check reads nothing the capture writes.\<close>

lemma useAllReady_capture:
  "useAllReady (s\<lparr>usePlayer := Loaded (fst (captureURLParams d q p))\<rparr>) =
   useAllReady (s\<lparr>usePlayer := Loaded p\<rparr>)"
  by (auto simp: useAllReady_def capture_refs split: loadable.splits)

text \<open>With a treatment on the game the readiness check and the game gate return.\<close>

lemma useAllReady_total:
  assumes "\<forall>g. useGame s = Loaded g \<longrightarrow> treatment g \<noteq> None"
  shows "\<exists>b. useAllReady s = Inr b"
  using assms
  by (auto simp: useAllReady_def split: loadable.splits option.splits)

lemma inner_total:
  assumes "\<forall>g. useGame s = Loaded g \<longrightarrow> treatment g \<noteq> None"
  shows "\<exists>scr. EmpiricaInnerContext u s = Inr scr"
proof -
  from useAllReady_total[OF assms] obtain b where "useAllReady s = Inr b" by blast
  then show ?thesis
    by (simp add: EmpiricaInnerContext_def split: loadable.splits)
qed

text \<open>The game gate reads nothing the capture writes either.\<close>

lemma inner_capture:
  "EmpiricaInnerContext u (s\<lparr>usePlayer := Loaded (fst (captureURLParams d q p))\<rparr>) =
   EmpiricaInnerContext u (s\<lparr>usePlayer := Loaded p\<rparr>)"
  by (auto simp: EmpiricaInnerContext_def useAllReady_capture capture_ended
      split: sum.splits loadable.splits)

text \<open>
  A pass that returns at line 130 or later has come through every earlier guard: the
  identity is there and its \<open>ended\<close> attribute is falsy.
\<close>

lemma reaches_130:
  "130 \<le> line (EmpiricaContext pr s) \<Longrightarrow>
     \<exists>p. usePlayer s = Loaded p \<and> \<not> truthy (ended p) \<and>
       useTajribaConnected s \<and> \<not> connecting s \<and> \<not> unmanagedAssignment pr"
  by (auto simp: gate_defs split: if_splits loadable.splits prod.splits)

lemma intro_player_after:
  assumes "shown (EmpiricaContext pr s) = IntroSteps"
  shows "\<exists>p. usePlayer s = Loaded p \<and>
    player_after (EmpiricaContext pr s) =
      Loaded (fst (captureURLParams (disableURLParamsCapture pr) (location_search s) p))"
  using assms
  by (auto simp: EmpiricaContext_def returns_def Let_def split: if_splits loadable.splits prod.splits)

text \<open>The switch \<open>disableURLParamsCapture\<close> has no part in the choice of the screen.\<close>

lemma shown_capture_switch:
  "shown (EmpiricaContext (pr\<lparr>disableURLParamsCapture := d\<rparr>) s) = shown (EmpiricaContext pr s)"
  by (auto simp: gate_defs split: loadable.splits)

lemma render_capture_switch:
  "render (pr\<lparr>disableURLParamsCapture := d\<rparr>) s = render pr s"
proof (cases "shown (EmpiricaContext pr s)")
  case (Render scr)
  then show ?thesis
    by (simp add: render_def Let_def shown_capture_switch)
next
  case IntroSteps
  then have i: "shown (EmpiricaContext (pr\<lparr>disableURLParamsCapture := d\<rparr>) s) = IntroSteps"
    by (simp add: shown_capture_switch)
  from intro_player_after[OF IntroSteps] intro_player_after[OF i]
  obtain p where "usePlayer s = Loaded p"
    "player_after (EmpiricaContext pr s) =
      Loaded (fst (captureURLParams (disableURLParamsCapture pr) (location_search s) p))"
    "player_after (EmpiricaContext (pr\<lparr>disableURLParamsCapture := d\<rparr>) s) =
      Loaded (fst (captureURLParams d (location_search s) p))"
    by auto
  with IntroSteps i show ?thesis
    by (simp add: render_def Let_def inner_capture)
qed

text \<open>What the capture writes is an object, hence truthy, also for an empty query.\<close>

lemma written_value_truthy: "truthy (fromEntries es)"
  by (simp add: fromEntries_def)

text \<open>A pass makes no call of \<^verbatim>\<open>player.set\<close>, or exactly the one of line 123.\<close>

lemma sets_cases:
  "sets (EmpiricaContext pr s) = [] \<or>
   (\<exists>p. usePlayer s = Loaded p \<and> \<not> truthy (urlParams p) \<and> \<not> disableURLParamsCapture pr \<and>
      120 \<le> line (EmpiricaContext pr s) \<and>
      sets (EmpiricaContext pr s) =
        [(''urlParams'', fromEntries (URLSearchParams (location_search s)))] \<and>
      player_after (EmpiricaContext pr s) =
        Loaded (p\<lparr>urlParams := fromEntries (URLSearchParams (location_search s))\<rparr>))"
  by (auto simp: gate_defs split: loadable.splits)

lemma no_set_when_truthy:
  assumes "truthy (opt_get urlParams (usePlayer s))"
  shows "sets (EmpiricaContext pr s) = []" "player_after (EmpiricaContext pr s) = usePlayer s"
  using assms by (auto simp: gate_defs split: loadable.splits)

lemma set_when_reached:
  assumes "120 \<le> line (EmpiricaContext pr s)" "\<not> disableURLParamsCapture pr"
    "usePlayer s = Loaded p" "\<not> truthy (urlParams p)"
  shows "sets (EmpiricaContext pr s) =
        [(''urlParams'', fromEntries (URLSearchParams (location_search s)))] \<and>
      player_after (EmpiricaContext pr s) =
        Loaded (p\<lparr>urlParams := fromEntries (URLSearchParams (location_search s))\<rparr>)"
  using assms by (auto simp: gate_defs split: if_splits)

lemma no_set_unless_reached:
  assumes "line (EmpiricaContext pr s) < 120 \<or> disableURLParamsCapture pr"
  shows "sets (EmpiricaContext pr s) = []"
  using assms by (auto simp: gate_defs split: if_splits loadable.splits)

section \<open>One screen per evaluation\<close>

text \<open>
  C1, as the code has it. For every snapshot whose game, when present, carries a
  treatment, and for all five switches, one evaluation of the session gate followed,
  where it hands over, by the game gate returns exactly one screen: never none, never
  two.
\<close>

theorem render_exactly_one_screen:
  assumes "\<forall>g. useGame s = Loaded g \<longrightarrow> treatment g \<noteq> None"
  shows "\<exists>!scr. render pr s = Inr scr"
proof -
  have "\<exists>scr. render pr s = Inr scr"
  proof (cases "shown (EmpiricaContext pr s)")
    case (Render scr)
    then show ?thesis by (simp add: render_def Let_def)
  next
    case IntroSteps
    have "\<forall>g. useGame (s\<lparr>usePlayer := player_after (EmpiricaContext pr s)\<rparr>) = Loaded g
        \<longrightarrow> treatment g \<noteq> None"
      using assms by simp
    then have "\<exists>scr. EmpiricaInnerContext (unmanagedGame pr)
        (s\<lparr>usePlayer := player_after (EmpiricaContext pr s)\<rparr>) = Inr scr"
      by (rule inner_total)
    with IntroSteps show ?thesis
      by (simp add: render_def Let_def)
  qed
  then show ?thesis by auto
qed

text \<open>The running game of the example has a treatment, and its one screen is the contents.\<close>

theorem render_exactly_one_screen_witness:
  "(\<exists>!scr. render default_props snapshot0 = Inr scr) \<and>
   render default_props snapshot0 = Inr Children"
proof -
  have "\<exists>!scr. render default_props snapshot0 = Inr scr"
    by (rule render_exactly_one_screen) (simp add: snapshot0_def game0_def)
  moreover have "render default_props snapshot0 = Inr Children"
    by (simp add: render_def gate_defs example_defs EmpiricaInnerContext_def useAllReady_def)
  ultimately show ?thesis by blast
qed

text \<open>
  C1 as stated fails: the same running game without its treatment attribute. The session
  gate hands over, the game gate calls the readiness check first (line 172), and the read
  of line 237 throws: the evaluation yields no screen.
\<close>

theorem render_throws_counterexample:
  "render default_props (snapshot0\<lparr>useGame := Loaded (game0\<lparr>treatment := None\<rparr>)\<rparr>) =
   Inl TypeError"
  by (simp add: render_def gate_defs example_defs EmpiricaInnerContext_def useAllReady_def)

section \<open>The readiness check\<close>

text \<open>
  C2, as the code has it. The readiness check returns false whenever \<open>playerCount\<close> is
  a number and the player set is smaller than it; it returns true only when identity,
  player set, stage, round, game and treatment are present, the identity and every
  member of the player set have their game, round and stage references, and, where
  \<open>playerCount\<close> is a number, the player set's size is at least that number; and any
  absence of identity, player set, stage, round or game, or of one of the identity's own
  references, yields not ready. Nothing is said of the size when \<open>playerCount\<close> is
  undefined: there the check can return true at any size.
\<close>

theorem useAllReady_headcount:
  "(usePlayers s = Loaded ps \<and> useGame s = Loaded g \<and> treatment g = Some t \<and>
      playerCount t = Some n \<and> int (length ps) < n \<longrightarrow> useAllReady s = Inr False) \<and>
   (useAllReady s = Inr True \<longrightarrow>
      (\<exists>p ps g t. usePlayer s = Loaded p \<and> usePlayers s = Loaded ps \<and> useGame s = Loaded g \<and>
         present (useStage s) \<and> present (useRound s) \<and>
         game p \<noteq> None \<and> round p \<noteq> None \<and> stage p \<noteq> None \<and>
         treatment g = Some t \<and>
         (\<forall>n. playerCount t = Some n \<longrightarrow> n \<le> int (length ps)) \<and>
         (\<forall>q \<in> set ps. game q \<noteq> None \<and> round q \<noteq> None \<and> stage q \<noteq> None))) \<and>
   (\<not> present (usePlayer s) \<or> \<not> present (usePlayers s) \<or> \<not> present (useStage s) \<or>
      \<not> present (useRound s) \<or> \<not> present (useGame s) \<or>
      (\<exists>p. usePlayer s = Loaded p \<and> (game p = None \<or> round p = None \<or> stage p = None))
      \<longrightarrow> useAllReady s = Inr False)"
proof (intro conjI impI)
  assume "usePlayers s = Loaded ps \<and> useGame s = Loaded g \<and> treatment g = Some t \<and>
      playerCount t = Some n \<and> int (length ps) < n"
  then show "useAllReady s = Inr False"
    by (simp add: useAllReady_def split: loadable.splits)
next
  assume "useAllReady s = Inr True"
  then show "\<exists>p ps g t. usePlayer s = Loaded p \<and> usePlayers s = Loaded ps \<and>
         useGame s = Loaded g \<and>
         present (useStage s) \<and> present (useRound s) \<and>
         game p \<noteq> None \<and> round p \<noteq> None \<and> stage p \<noteq> None \<and>
         treatment g = Some t \<and>
         (\<forall>n. playerCount t = Some n \<longrightarrow> n \<le> int (length ps)) \<and>
         (\<forall>q \<in> set ps. game q \<noteq> None \<and> round q \<noteq> None \<and> stage q \<noteq> None)"
    by (auto simp: useAllReady_def players_placed_iff
        split: loadable.splits option.splits if_splits)
next
  assume "\<not> present (usePlayer s) \<or> \<not> present (usePlayers s) \<or> \<not> present (useStage s) \<or>
      \<not> present (useRound s) \<or> \<not> present (useGame s) \<or>
      (\<exists>p. usePlayer s = Loaded p \<and> (game p = None \<or> round p = None \<or> stage p = None))"
  then show "useAllReady s = Inr False"
    by (auto simp: useAllReady_def present_iff split: loadable.splits)
qed

text \<open>
  One player where two are required: not ready. Both players placed: ready, and the
  size is at least the head count. The round missing: not ready.
\<close>

theorem useAllReady_headcount_witness:
  "useAllReady (snapshot0\<lparr>usePlayers := Loaded [player0]\<rparr>) = Inr False \<and>
   useAllReady snapshot0 = Inr True \<and>
   (2::int) \<le> int (length [player0, player0]) \<and>
   useAllReady (snapshot0\<lparr>useRound := Null\<rparr>) = Inr False"
proof -
  have a: "useAllReady (snapshot0\<lparr>usePlayers := Loaded [player0]\<rparr>) = Inr False"
    using useAllReady_headcount[of "snapshot0\<lparr>usePlayers := Loaded [player0]\<rparr>"
        "[player0]" game0 "\<lparr>playerCount = Some 2\<rparr>" 2]
    by (simp add: example_defs)
  have b: "useAllReady snapshot0 = Inr True"
    by (simp add: useAllReady_def example_defs)
  have c: "(2::int) \<le> int (length [player0, player0])"
    using b useAllReady_headcount[of snapshot0 "[]" game0 "\<lparr>playerCount = Some 2\<rparr>" 2]
    by (auto simp: example_defs)
  have d: "useAllReady (snapshot0\<lparr>useRound := Null\<rparr>) = Inr False"
    using useAllReady_headcount[of "snapshot0\<lparr>useRound := Null\<rparr>" "[]" game0
        "\<lparr>playerCount = Some 2\<rparr>" 2]
    by (simp add: example_defs)
  from a b c d show ?thesis by blast
qed

text \<open>
  C2 as stated fails: with the treatment present and its \<open>playerCount\<close> undefined the
  readiness check returns true on an empty player set, although the size is not at
  least \<open>playerCount\<close>.
\<close>

theorem useAllReady_true_below_headcount_counterexample:
  "useAllReady snapshot_no_count = Inr True \<and>
   usePlayers snapshot_no_count = Loaded [] \<and>
   useGame snapshot_no_count = Loaded (game0\<lparr>treatment := Some treatment_no_count\<rparr>) \<and>
   \<not> length_at_least (length ([] :: Player list)) (playerCount treatment_no_count)"
  by (simp add: useAllReady_def snapshot_no_count_def treatment_no_count_def example_defs)

text \<open>
  C8. The readiness check does not guard the treatment: with identity, player set,
  stage, round and game present and the identity's references non-empty, but the game's
  treatment absent, the read of the head count throws. The game gate, which calls the
  check before its first guard, throws with it.
\<close>

theorem useAllReady_treatment_absent:
  assumes "usePlayer s = Loaded p" and "usePlayers s = Loaded ps"
    and "present (useStage s)" and "present (useRound s)" and "useGame s = Loaded g"
    and "game p \<noteq> None" and "round p \<noteq> None" and "stage p \<noteq> None"
    and "treatment g = None"
  shows "useAllReady s = Inl TypeError \<and> EmpiricaInnerContext u s = Inl TypeError"
  using assms by (simp add: useAllReady_def EmpiricaInnerContext_def)

theorem useAllReady_treatment_absent_witness:
  "useAllReady (snapshot0\<lparr>useGame := Loaded (game0\<lparr>treatment := None\<rparr>)\<rparr>) = Inl TypeError \<and>
   EmpiricaInnerContext False (snapshot0\<lparr>useGame := Loaded (game0\<lparr>treatment := None\<rparr>)\<rparr>)
     = Inl TypeError"
  using useAllReady_treatment_absent[of
      "snapshot0\<lparr>useGame := Loaded (game0\<lparr>treatment := None\<rparr>)\<rparr>"
      player0 "[player0, player0]" "game0\<lparr>treatment := None\<rparr>" False]
  by (simp add: example_defs)

text \<open>
  C9. With the treatment present and its \<open>playerCount\<close> undefined, the comparison of
  line 239 is false for every size \<open>k\<close> of the player set, and the readiness check is
  decided by the presence checks and the members' references alone: it returns true for
  a player set of any size whose members are all placed.
\<close>

theorem useAllReady_playerCount_undefined:
  assumes "useGame s = Loaded g" and "treatment g = Some t" and "playerCount t = None"
  shows "\<not> length_less k (playerCount t) \<and>
         useAllReady s = Inr (\<exists>p ps. usePlayer s = Loaded p \<and> usePlayers s = Loaded ps \<and>
           present (useStage s) \<and> present (useRound s) \<and>
           game p \<noteq> None \<and> round p \<noteq> None \<and> stage p \<noteq> None \<and>
           (\<forall>q \<in> set ps. game q \<noteq> None \<and> round q \<noteq> None \<and> stage q \<noteq> None))"
  using assms
  by (auto simp: useAllReady_def players_placed_iff present_iff split: loadable.splits)

text \<open>An empty player set is ready, whatever head count was intended.\<close>

theorem useAllReady_playerCount_undefined_witness:
  "useAllReady (snapshot0\<lparr>useGame := Loaded (game0\<lparr>treatment := Some \<lparr>playerCount = None\<rparr>\<rparr>),
      usePlayers := Loaded []\<rparr>) = Inr True"
  using useAllReady_playerCount_undefined[of
      "snapshot0\<lparr>useGame := Loaded (game0\<lparr>treatment := Some \<lparr>playerCount = None\<rparr>\<rparr>),
      usePlayers := Loaded []\<rparr>" "game0\<lparr>treatment := Some \<lparr>playerCount = None\<rparr>\<rparr>"
      "\<lparr>playerCount = None\<rparr>" 0]
  by (simp add: example_defs)

section \<open>The ended identity\<close>

text \<open>
  C3, as the code has it. Once the identity's \<open>ended\<close> attribute is truthy, the session
  gate returns Exit on every snapshot in which the transport is connected and the
  identity resolution is not in progress, whatever the other fields and switches, and
  Connecting on every other snapshot. So an ended identity is never shown Loading,
  Consent, NoGames, the identity creation, Lobby or the contents, and is never handed
  to the game gate.
\<close>

theorem ended_identity_exit:
  assumes "usePlayer s = Loaded p" and "truthy (ended p)"
  shows "shown (EmpiricaContext pr s) =
           (if useTajribaConnected s \<and> \<not> connecting s then Render Exit else Render Connecting) \<and>
         render pr s = Inr (if useTajribaConnected s \<and> \<not> connecting s then Exit else Connecting) \<and>
         shown (EmpiricaContext pr s) \<notin>
           {Render Loading, Render Consent, Render NoGames, Render PlayerCreate, Render Lobby,
            Render Children, IntroSteps}"
  using assms by (simp add: render_def gate_defs)

theorem ended_identity_exit_witness:
  "shown (EmpiricaContext default_props (snapshot0\<lparr>usePlayer := Loaded player_ended\<rparr>))
     = Render Exit \<and>
   render default_props (snapshot0\<lparr>usePlayer := Loaded player_ended\<rparr>) = Inr Exit"
  using ended_identity_exit[of "snapshot0\<lparr>usePlayer := Loaded player_ended\<rparr>" player_ended
      default_props]
  by (simp add: example_defs)

text \<open>
  C3 as stated fails: an ended identity whose transport is not connected gets the
  Connecting screen (line 84), not Exit.
\<close>

theorem ended_identity_connecting_counterexample:
  "shown (EmpiricaContext default_props
     (snapshot0\<lparr>useTajribaConnected := False, usePlayer := Loaded player_ended\<rparr>))
     = Render Connecting"
  by (simp add: gate_defs example_defs)

section \<open>Unmanaged assignment\<close>

text \<open>
  C4 on the code. With \<open>unmanagedAssignment\<close> set (and \<open>unmanagedGame\<close> not), a connected,
  consenting player who exists and is not assigned to a game (\<^verbatim>\<open>useGame()\<close> is \<^verbatim>\<open>null\<close>),
  in an open experiment, is shown Loading by the guard of line 116, which comes before
  the switch is read at line 126; the contents are not rendered.
\<close>

theorem unmanagedAssignment_game_absent:
  "shown (EmpiricaContext (default_props\<lparr>unmanagedAssignment := True\<rparr>) snapshot_unassigned)
     = Render Loading"
  by (simp add: gate_defs example_defs)

theorem unmanagedAssignment_game_absent_witness:
  "shown (EmpiricaContext (default_props\<lparr>unmanagedAssignment := True\<rparr>) snapshot_unassigned)
     \<noteq> Render Children"
  using unmanagedAssignment_game_absent by simp

section \<open>The ended game\<close>

text \<open>
  C5. With the game present and \<open>game.hasEnded\<close> true, both guards on the ended game
  answer by the identity's \<open>ended\<close> attribute: Loading while it is falsy, Exit once it is
  truthy. For the session gate: a pass that reaches its guard (line 130) returns by that
  rule, and with the transport connected an ended identity gets Exit. For the game gate:
  once the game has a status and the readiness check has returned, its guard (line 186)
  returns by the same rule.
\<close>

theorem game_ended_guards:
  assumes "useGame s = Loaded g" and "hasEnded g"
  shows "(130 \<le> line (EmpiricaContext pr s) \<longrightarrow>
            shown (EmpiricaContext pr s) =
              Render (if \<not> truthy (opt_get ended (usePlayer s)) then Loading else Exit)) \<and>
         (useTajribaConnected s \<and> \<not> connecting s \<and> truthy (opt_get ended (usePlayer s)) \<longrightarrow>
            shown (EmpiricaContext pr s) = Render Exit) \<and>
         (truthy (status g) \<and> useAllReady s = Inr b \<longrightarrow>
            EmpiricaInnerContext u s =
              Inr (if \<not> truthy (opt_get ended (usePlayer s)) then Loading else Exit))"
proof (intro conjI impI)
  assume a: "130 \<le> line (EmpiricaContext pr s)"
  from reaches_130[OF a] obtain p where p: "usePlayer s = Loaded p" "\<not> truthy (ended p)"
    by blast
  from a p assms show "shown (EmpiricaContext pr s) =
      Render (if \<not> truthy (opt_get ended (usePlayer s)) then Loading else Exit)"
    by (auto simp: gate_defs split: if_splits prod.splits)
next
  assume "useTajribaConnected s \<and> \<not> connecting s \<and> truthy (opt_get ended (usePlayer s))"
  then show "shown (EmpiricaContext pr s) = Render Exit"
    by (simp add: gate_defs)
next
  assume "truthy (status g) \<and> useAllReady s = Inr b"
  with assms show "EmpiricaInnerContext u s =
      Inr (if \<not> truthy (opt_get ended (usePlayer s)) then Loading else Exit)"
    by (simp add: EmpiricaInnerContext_def)
qed

text \<open>
  The ended game of the example: Loading from both gates while the player has not
  ended, Exit from both once the player has.
\<close>

theorem game_ended_guards_witness:
  "shown (EmpiricaContext default_props (snapshot0\<lparr>useGame := Loaded game_over\<rparr>))
     = Render Loading \<and>
   shown (EmpiricaContext default_props
     (snapshot0\<lparr>useGame := Loaded game_over, usePlayer := Loaded player_ended\<rparr>)) = Render Exit \<and>
   EmpiricaInnerContext False (snapshot0\<lparr>useGame := Loaded game_over\<rparr>) = Inr Loading \<and>
   EmpiricaInnerContext False
     (snapshot0\<lparr>useGame := Loaded game_over, usePlayer := Loaded player_ended\<rparr>) = Inr Exit"
proof -
  let ?s = "snapshot0\<lparr>useGame := Loaded game_over\<rparr>"
  let ?s' = "snapshot0\<lparr>useGame := Loaded game_over, usePlayer := Loaded player_ended\<rparr>"
  have g: "useGame ?s = Loaded game_over" "useGame ?s' = Loaded game_over" "hasEnded game_over"
    by (simp_all add: game_over_def)
  have r: "130 \<le> line (EmpiricaContext default_props ?s)"
    by (simp add: gate_defs example_defs)
  have c: "useTajribaConnected ?s' \<and> \<not> connecting ?s' \<and> truthy (opt_get ended (usePlayer ?s'))"
    by (simp add: example_defs)
  have t: "truthy (status game_over)" "useAllReady ?s = Inr True" "useAllReady ?s' = Inr True"
    by (simp_all add: useAllReady_def example_defs)
  have n: "\<not> truthy (opt_get ended (usePlayer ?s))"
    by (simp add: example_defs)
  from game_ended_guards[OF g(1) g(3), of default_props True False]
    game_ended_guards[OF g(2) g(3), of default_props True False] r c t n
  show ?thesis by simp
qed

text \<open>
  C10. In the session gate the Exit of the ended-game guard (the return of line 135) is
  never taken. A pass that shows Exit returned at line 88, on a truthy \<open>ended\<close>; a
  pass that reaches the guard of line 130 has an identity whose \<open>ended\<close> is falsy; so
  whenever that guard fires it returns Loading, at line 132.
\<close>

theorem session_exit_only_by_ended_guard:
  "line (EmpiricaContext pr s) \<noteq> 135 \<and>
   (shown (EmpiricaContext pr s) = Render Exit \<longrightarrow>
      line (EmpiricaContext pr s) = 88 \<and> truthy (opt_get ended (usePlayer s))) \<and>
   (130 \<le> line (EmpiricaContext pr s) \<longrightarrow>
      (\<exists>p. usePlayer s = Loaded p \<and> \<not> truthy (ended p))) \<and>
   (130 \<le> line (EmpiricaContext pr s) \<and> game_hasEnded (useGame s) \<longrightarrow>
      shown (EmpiricaContext pr s) = Render Loading \<and> line (EmpiricaContext pr s) = 132)"
proof (intro conjI impI)
  show "line (EmpiricaContext pr s) \<noteq> 135"
    by (simp add: gate_defs split: loadable.splits prod.splits)
next
  assume "shown (EmpiricaContext pr s) = Render Exit"
  then show "line (EmpiricaContext pr s) = 88"
    by (simp add: gate_defs split: if_splits loadable.splits prod.splits)
next
  assume "shown (EmpiricaContext pr s) = Render Exit"
  then show "truthy (opt_get ended (usePlayer s))"
    by (simp add: gate_defs split: if_splits loadable.splits prod.splits)
next
  assume "130 \<le> line (EmpiricaContext pr s)"
  from reaches_130[OF this] show "\<exists>p. usePlayer s = Loaded p \<and> \<not> truthy (ended p)" by blast
next
  assume a: "130 \<le> line (EmpiricaContext pr s) \<and> game_hasEnded (useGame s)"
  with reaches_130[of pr s] obtain p where p: "usePlayer s = Loaded p" "\<not> truthy (ended p)"
    by blast
  from a p show "shown (EmpiricaContext pr s) = Render Loading"
    by (auto simp: gate_defs split: if_splits prod.splits)
  from a p show "line (EmpiricaContext pr s) = 132"
    by (auto simp: gate_defs split: if_splits prod.splits)
qed

text \<open>
  The ended game: Loading at line 132 for the player who has not ended, and the Exit
  of the player who has comes from line 88.
\<close>

theorem session_exit_only_by_ended_guard_witness:
  "line (EmpiricaContext default_props (snapshot0\<lparr>useGame := Loaded game_over\<rparr>)) = 132 \<and>
   shown (EmpiricaContext default_props (snapshot0\<lparr>useGame := Loaded game_over\<rparr>))
     = Render Loading \<and>
   line (EmpiricaContext default_props
     (snapshot0\<lparr>useGame := Loaded game_over, usePlayer := Loaded player_ended\<rparr>)) = 88"
proof -
  let ?s = "snapshot0\<lparr>useGame := Loaded game_over\<rparr>"
  let ?s' = "snapshot0\<lparr>useGame := Loaded game_over, usePlayer := Loaded player_ended\<rparr>"
  have r: "130 \<le> line (EmpiricaContext default_props ?s) \<and> game_hasEnded (useGame ?s)"
    by (simp add: gate_defs example_defs)
  have e: "shown (EmpiricaContext default_props ?s') = Render Exit"
    by (simp add: gate_defs example_defs)
  from r e session_exit_only_by_ended_guard[of default_props ?s]
    session_exit_only_by_ended_guard[of default_props ?s']
  show ?thesis by blast
qed

section \<open>The NoGames screen\<close>

text \<open>
  C7. With \<open>disableNoGames\<close> set, no snapshot makes the session gate return the NoGames
  screen, and none makes the two gates together show it.
\<close>

theorem disableNoGames_never_NoGames:
  assumes "disableNoGames pr"
  shows "shown (EmpiricaContext pr s) \<noteq> Render NoGames \<and> render pr s \<noteq> Inr NoGames"
proof
  show a: "shown (EmpiricaContext pr s) \<noteq> Render NoGames"
    using assms by (simp add: gate_defs split: loadable.splits prod.splits)
  show "render pr s \<noteq> Inr NoGames"
  proof (cases "shown (EmpiricaContext pr s)")
    case (Render scr)
    with a show ?thesis by (simp add: render_def Let_def)
  next
    case IntroSteps
    then show ?thesis
      by (auto simp: render_def Let_def EmpiricaInnerContext_def
          split: sum.splits loadable.splits if_splits)
  qed
qed

text \<open>
  A closed experiment and an unassigned player: NoGames by default, and not with the
  switch set.
\<close>

theorem disableNoGames_never_NoGames_witness:
  "shown (EmpiricaContext default_props snapshot_closed) = Render NoGames \<and>
   shown (EmpiricaContext (default_props\<lparr>disableNoGames := True\<rparr>) snapshot_closed)
     \<noteq> Render NoGames \<and>
   render (default_props\<lparr>disableNoGames := True\<rparr>) snapshot_closed \<noteq> Inr NoGames"
proof -
  have "shown (EmpiricaContext default_props snapshot_closed) = Render NoGames"
    by (simp add: gate_defs example_defs)
  moreover have "disableNoGames (default_props\<lparr>disableNoGames := True\<rparr>)" by simp
  note disableNoGames_never_NoGames[OF this, of snapshot_closed]
  ultimately show ?thesis by blast
qed

section \<open>The capture of the query string\<close>

text \<open>
  C6. The capture runs at most once per identity and is idempotent. A pass that reaches
  the capture step (it returns at line 120 or later) with the capture enabled and the
  identity's \<open>urlParams\<close> unset makes the one call
  \<^verbatim>\<open>player.set("urlParams", ...)\<close> with the parsed query string, which for \<^verbatim>\<open>?a=1&b=2\<close> is
  \<^verbatim>\<open>{a: "1", b: "2"}\<close>; a pass on an identity whose \<open>urlParams\<close> is set (truthy, as every
  value the capture writes is) writes nothing, and neither does a pass that does not
  reach the step or has the capture disabled; after a pass that wrote, no later pass
  on that identity writes, whatever else has changed; a pass writes at most once; and
  the screen of a pass is the screen of the same pass with the capture disabled.
\<close>

theorem urlParams_capture_once:
  "(120 \<le> line (EmpiricaContext pr s) \<and> \<not> disableURLParamsCapture pr \<and>
      usePlayer s = Loaded p \<and> \<not> truthy (urlParams p) \<longrightarrow>
        sets (EmpiricaContext pr s) =
          [(''urlParams'', fromEntries (URLSearchParams (location_search s)))] \<and>
        player_after (EmpiricaContext pr s) =
          Loaded (p\<lparr>urlParams := fromEntries (URLSearchParams (location_search s))\<rparr>)) \<and>
   fromEntries (URLSearchParams ''?a=1&b=2'') = JObj [(''a'', JStr ''1''), (''b'', JStr ''2'')] \<and>
   (truthy (opt_get urlParams (usePlayer s)) \<longrightarrow>
      sets (EmpiricaContext pr s) = [] \<and> player_after (EmpiricaContext pr s) = usePlayer s) \<and>
   (line (EmpiricaContext pr s) < 120 \<or> disableURLParamsCapture pr \<longrightarrow>
      sets (EmpiricaContext pr s) = []) \<and>
   (sets (EmpiricaContext pr s) \<noteq> [] \<and> player_after (EmpiricaContext pr s) = Loaded q \<and>
      usePlayer s' = Loaded q' \<and> urlParams q' = urlParams q \<longrightarrow>
        sets (EmpiricaContext pr' s') = []) \<and>
   length (sets (EmpiricaContext pr s)) \<le> 1 \<and>
   shown (EmpiricaContext pr s) =
     shown (EmpiricaContext (pr\<lparr>disableURLParamsCapture := True\<rparr>) s) \<and>
   render pr s = render (pr\<lparr>disableURLParamsCapture := True\<rparr>) s"
proof (intro conjI impI)
  assume "120 \<le> line (EmpiricaContext pr s) \<and> \<not> disableURLParamsCapture pr \<and>
      usePlayer s = Loaded p \<and> \<not> truthy (urlParams p)"
  then have r: "sets (EmpiricaContext pr s) =
        [(''urlParams'', fromEntries (URLSearchParams (location_search s)))] \<and>
      player_after (EmpiricaContext pr s) =
        Loaded (p\<lparr>urlParams := fromEntries (URLSearchParams (location_search s))\<rparr>)"
    using set_when_reached by blast
  from r show "sets (EmpiricaContext pr s) =
        [(''urlParams'', fromEntries (URLSearchParams (location_search s)))]" by blast
  from r show "player_after (EmpiricaContext pr s) =
        Loaded (p\<lparr>urlParams := fromEntries (URLSearchParams (location_search s))\<rparr>)" by blast
next
  show "fromEntries (URLSearchParams ''?a=1&b=2'') = JObj [(''a'', JStr ''1''), (''b'', JStr ''2'')]"
    by (simp add: fromEntries_def URLSearchParams_def parse_pair_def form_decode_def
        plus_to_space_def)
next
  assume t: "truthy (opt_get urlParams (usePlayer s))"
  from no_set_when_truthy[OF t] show "sets (EmpiricaContext pr s) = []"
    "player_after (EmpiricaContext pr s) = usePlayer s" by blast+
next
  assume "line (EmpiricaContext pr s) < 120 \<or> disableURLParamsCapture pr"
  then show "sets (EmpiricaContext pr s) = []" by (rule no_set_unless_reached)
next
  assume a: "sets (EmpiricaContext pr s) \<noteq> [] \<and> player_after (EmpiricaContext pr s) = Loaded q \<and>
      usePlayer s' = Loaded q' \<and> urlParams q' = urlParams q"
  with sets_cases[of pr s] have "truthy (urlParams q)"
    by (auto simp: written_value_truthy)
  with a have "truthy (opt_get urlParams (usePlayer s'))" by simp
  then show "sets (EmpiricaContext pr' s') = []" by (rule no_set_when_truthy)
next
  show "length (sets (EmpiricaContext pr s)) \<le> 1"
    using sets_cases[of pr s] by auto
next
  show "shown (EmpiricaContext pr s) =
      shown (EmpiricaContext (pr\<lparr>disableURLParamsCapture := True\<rparr>) s)"
    by (simp add: shown_capture_switch)
next
  show "render pr s = render (pr\<lparr>disableURLParamsCapture := True\<rparr>) s"
    by (simp add: render_capture_switch)
qed

text \<open>
  The example: the first pass writes \<^verbatim>\<open>{a: "1", b: "2"}\<close>, a second pass on the identity
  it leaves writes nothing, and the screen is the one shown with the capture disabled.
\<close>

theorem urlParams_capture_once_witness:
  "sets (EmpiricaContext default_props snapshot0) =
     [(''urlParams'', JObj [(''a'', JStr ''1''), (''b'', JStr ''2'')])] \<and>
   player_after (EmpiricaContext default_props snapshot0) =
     Loaded (player0\<lparr>urlParams := JObj [(''a'', JStr ''1''), (''b'', JStr ''2'')]\<rparr>) \<and>
   sets (EmpiricaContext default_props
     (snapshot0\<lparr>usePlayer := player_after (EmpiricaContext default_props snapshot0)\<rparr>)) = [] \<and>
   render default_props snapshot0 =
     render (default_props\<lparr>disableURLParamsCapture := True\<rparr>) snapshot0"
proof -
  let ?v = "JObj [(''a'', JStr ''1''), (''b'', JStr ''2'')]"
  have q: "fromEntries (URLSearchParams (location_search snapshot0)) = ?v"
    using urlParams_capture_once[of default_props snapshot0 player0] by (simp add: snapshot0_def)
  have h: "120 \<le> line (EmpiricaContext default_props snapshot0) \<and>
      \<not> disableURLParamsCapture default_props \<and>
      usePlayer snapshot0 = Loaded player0 \<and> \<not> truthy (urlParams player0)"
    by (simp add: gate_defs example_defs)
  with urlParams_capture_once[of default_props snapshot0 player0] q
  have 1: "sets (EmpiricaContext default_props snapshot0) = [(''urlParams'', ?v)]"
    and 2: "player_after (EmpiricaContext default_props snapshot0) =
      Loaded (player0\<lparr>urlParams := ?v\<rparr>)"
    by simp_all
  have 3: "sets (EmpiricaContext default_props
     (snapshot0\<lparr>usePlayer := player_after (EmpiricaContext default_props snapshot0)\<rparr>)) = []"
    using urlParams_capture_once[of default_props snapshot0 player0 "player0\<lparr>urlParams := ?v\<rparr>"
        "snapshot0\<lparr>usePlayer := player_after (EmpiricaContext default_props snapshot0)\<rparr>"
        "player0\<lparr>urlParams := ?v\<rparr>" default_props] 1 2
    by simp
  have 4: "render default_props snapshot0 =
      render (default_props\<lparr>disableURLParamsCapture := True\<rparr>) snapshot0"
    using urlParams_capture_once[of default_props snapshot0] by blast
  from 1 2 3 4 show ?thesis by blast
qed

section \<open>Further properties of the session gate\<close>

text \<open>
  The bypass of line 126 as the code has it. With \<open>unmanagedAssignment\<close> set, a pass
  that comes through the guards of lines 83 to 118 (connected, identity present and not
  ended, globals loaded, the game not still loading, no NoGames, consent given or
  disabled, and the game present or \<open>unmanagedGame\<close> set) renders the contents, whatever
  the game's status and \<open>hasEnded\<close>, the round, the stage and the player set are.
\<close>

theorem unmanagedAssignment_bypass:
  assumes "unmanagedAssignment pr"
    and "useTajribaConnected s" and "\<not> connecting s"
    and "usePlayer s = Loaded p" and "\<not> truthy (ended p)"
    and "useGlobal s = Loaded gl" and "hasPlayer s" and "usePartConnected s"
    and "useGame s \<noteq> Undefined"
    and "disableNoGames pr \<or> truthy (experimentOpen gl) \<or> truthy (gameID p)"
    and "disableConsent pr \<or> consented s"
    and "unmanagedGame pr \<or> present (useGame s)"
  shows "shown (EmpiricaContext pr s) = Render Children \<and> render pr s = Inr Children"
  using assms by (auto simp: render_def gate_defs)

text \<open>The unassigned player is shown the contents once \<open>unmanagedGame\<close> is set as well.\<close>

theorem unmanagedAssignment_bypass_witness:
  "shown (EmpiricaContext (default_props\<lparr>unmanagedAssignment := True, unmanagedGame := True\<rparr>)
     snapshot_unassigned) = Render Children"
  using unmanagedAssignment_bypass[of
      "default_props\<lparr>unmanagedAssignment := True, unmanagedGame := True\<rparr>"
      snapshot_unassigned player_unassigned "\<lparr>experimentOpen = JBool True\<rparr>"]
  by (simp add: example_defs)

text \<open>
  The scenarios of the specification's section 8: a disconnected transport gives
  Connecting; a connected transport with no identity, globals loaded and the experiment
  open gives the identity creation (consent given or disabled); an identity with a game
  whose status is unset gives the Lobby.
\<close>

theorem session_scenarios:
  "(\<not> useTajribaConnected s \<longrightarrow> shown (EmpiricaContext pr s) = Render Connecting) \<and>
   (useTajribaConnected s \<and> \<not> connecting s \<and> \<not> hasPlayer s \<and> usePlayer s = Undefined \<and>
      useGlobal s = Loaded gl \<and> truthy (experimentOpen gl) \<and>
      (disableConsent pr \<or> consented s) \<longrightarrow>
        shown (EmpiricaContext pr s) = Render PlayerCreate) \<and>
   (shown (EmpiricaContext pr s) = IntroSteps \<and> useGame s = Loaded g \<and> \<not> truthy (status g) \<and>
      treatment g \<noteq> None \<longrightarrow> render pr s = Inr Lobby)"
proof (intro conjI impI)
  assume "\<not> useTajribaConnected s"
  then show "shown (EmpiricaContext pr s) = Render Connecting"
    by (simp add: gate_defs)
next
  assume "useTajribaConnected s \<and> \<not> connecting s \<and> \<not> hasPlayer s \<and> usePlayer s = Undefined \<and>
      useGlobal s = Loaded gl \<and> truthy (experimentOpen gl) \<and>
      (disableConsent pr \<or> consented s)"
  then show "shown (EmpiricaContext pr s) = Render PlayerCreate"
    by (auto simp: gate_defs)
next
  assume a: "shown (EmpiricaContext pr s) = IntroSteps \<and> useGame s = Loaded g \<and>
      \<not> truthy (status g) \<and> treatment g \<noteq> None"
  then have "\<forall>g'. useGame (s\<lparr>usePlayer := player_after (EmpiricaContext pr s)\<rparr>) = Loaded g'
      \<longrightarrow> treatment g' \<noteq> None"
    by simp
  from useAllReady_total[OF this] obtain b where
    "useAllReady (s\<lparr>usePlayer := player_after (EmpiricaContext pr s)\<rparr>) = Inr b" by blast
  with a show "render pr s = Inr Lobby"
    by (simp add: render_def Let_def EmpiricaInnerContext_def)
qed

theorem session_scenarios_witness:
  "shown (EmpiricaContext default_props (snapshot0\<lparr>useTajribaConnected := False\<rparr>))
     = Render Connecting \<and>
   shown (EmpiricaContext default_props
     (snapshot0\<lparr>hasPlayer := False, usePlayer := Undefined, useGame := Undefined\<rparr>))
     = Render PlayerCreate \<and>
   render default_props (snapshot0\<lparr>useGame := Loaded (game0\<lparr>status := JUndefined\<rparr>)\<rparr>)
     = Inr Lobby"
proof -
  let ?l = "snapshot0\<lparr>useGame := Loaded (game0\<lparr>status := JUndefined\<rparr>)\<rparr>"
  have i: "shown (EmpiricaContext default_props ?l) = IntroSteps"
    by (simp add: gate_defs example_defs)
  from i session_scenarios[of "snapshot0\<lparr>useTajribaConnected := False\<rparr>" default_props]
    session_scenarios[of
      "snapshot0\<lparr>hasPlayer := False, usePlayer := Undefined, useGame := Undefined\<rparr>"
      default_props "\<lparr>experimentOpen = JBool True\<rparr>"]
    session_scenarios[of ?l default_props _ "game0\<lparr>status := JUndefined\<rparr>"]
  show ?thesis by (simp add: example_defs)
qed

end
